theory Spec2Isabelle
  imports Main
begin

section \<open>Data model of \<open>sunfyre::observer_ptr\<close>\<close>

text \<open>
  A raw address \<open>T*\<close> is either the null pointer or the address of some storage location.
\<close>

datatype pointer = nullptr | Addr nat

text \<open>
  How a call ends. \<open>Returns\<close>: the call returns normally with a value. \<open>Throws\<close>: an
  exception leaves the call. \<open>Undefined\<close>: the call has undefined behaviour (the only
  source of it in this header is \<open>*this->get()\<close> on a pointer that designates no object).
\<close>

datatype 'a outcome = Returns 'a | Throws | Undefined

fun obind :: "'a outcome \<Rightarrow> ('a \<Rightarrow> 'b outcome) \<Rightarrow> 'b outcome" where
  "obind (Returns x) f = f x"
| "obind Throws f = Throws"
| "obind Undefined f = Undefined"

text \<open>\<open>struct observer_ptr { ... private: T* ptr; }\<close>: the one data member.\<close>

record observer_ptr =
  ptr :: pointer

text \<open>
  The program state: the wrapper objects, each named by its identity (what a reference
  \<open>observer_ptr&\<close> or \<open>this\<close> designates), and the memory that holds the pointees.
\<close>

record 'v state =
  wrappers :: "nat \<Rightarrow> observer_ptr"
  memory :: "nat \<rightharpoonup> 'v"

section \<open>Constructors\<close>

text \<open>\<open>constexpr observer_ptr() noexcept : ptr(nullptr) {}\<close>\<close>

definition ctor_default :: "observer_ptr outcome" where
  "ctor_default = Returns \<lparr>ptr = nullptr\<rparr>"

text \<open>\<open>constexpr observer_ptr(std::nullptr_t) noexcept : ptr(nullptr) {}\<close>\<close>

definition ctor_nullptr :: "observer_ptr outcome" where
  "ctor_nullptr = Returns \<lparr>ptr = nullptr\<rparr>"

text \<open>\<open>constexpr explicit observer_ptr(element_type* p) noexcept : ptr(p) {}\<close>\<close>

definition ctor_ptr :: "pointer \<Rightarrow> observer_ptr outcome" where
  "ctor_ptr p = Returns \<lparr>ptr = p\<rparr>"

section \<open>Observers\<close>

text \<open>\<open>constexpr auto get() const noexcept -> element_type* { return this->ptr; }\<close>\<close>

definition get :: "observer_ptr \<Rightarrow> pointer outcome" where
  "get this = Returns (ptr this)"

text \<open>
  \<open>observer_ptr(observer_ptr<W2> other) noexcept : ptr(other.get()) {}\<close>: the implicit
  conversion from \<open>W2*\<close> to \<open>element_type*\<close> is the parameter \<open>conv\<close>.
\<close>

definition ctor_conv :: "(pointer \<Rightarrow> pointer) \<Rightarrow> observer_ptr \<Rightarrow> observer_ptr outcome" where
  "ctor_conv conv other = obind (get other) (\<lambda>q. Returns \<lparr>ptr = conv q\<rparr>)"

text \<open>\<open>constexpr operator bool() const noexcept { return this->get() != nullptr; }\<close>\<close>

definition op_bool :: "observer_ptr \<Rightarrow> bool outcome" where
  "op_bool this = obind (get this) (\<lambda>p. Returns (p \<noteq> nullptr))"

text \<open>
  The built-in unary \<open>*\<close> on a raw address: it yields the lvalue of the object at that
  address, and is undefined when the pointer is null or designates no object.
\<close>

fun indirection :: "(nat \<rightharpoonup> 'v) \<Rightarrow> pointer \<Rightarrow> nat outcome" where
  "indirection m nullptr = Undefined"
| "indirection m (Addr a) = (case m a of None \<Rightarrow> Undefined | Some v \<Rightarrow> Returns a)"

text \<open>\<open>constexpr auto operator* () const noexcept { return *this->get(); }\<close>\<close>

definition op_deref :: "(nat \<rightharpoonup> 'v) \<Rightarrow> observer_ptr \<Rightarrow> nat outcome" where
  "op_deref m this = obind (get this) (\<lambda>p. indirection m p)"

text \<open>\<open>constexpr auto operator-> () const noexcept -> element_type* { return this->get(); }\<close>\<close>

definition op_arrow :: "observer_ptr \<Rightarrow> pointer outcome" where
  "op_arrow this = get this"

text \<open>\<open>constexpr explicit operator element_type* () const noexcept { return this->get(); }\<close>\<close>

definition op_element_ptr :: "observer_ptr \<Rightarrow> pointer outcome" where
  "op_element_ptr this = get this"

section \<open>Modifiers\<close>

text \<open>\<open>constexpr void reset(element_type* p = nullptr) noexcept { this->ptr = p; }\<close>\<close>

definition reset :: "'v state \<Rightarrow> nat \<Rightarrow> pointer \<Rightarrow> 'v state outcome" where
  "reset s this p =
     Returns (s\<lparr>wrappers := (wrappers s)(this := (wrappers s this)\<lparr>ptr := p\<rparr>)\<rparr>)"

text \<open>\<open>reset()\<close>: the call that takes the default argument.\<close>

definition reset_default :: "'v state \<Rightarrow> nat \<Rightarrow> 'v state outcome" where
  "reset_default s this = reset s this nullptr"

text \<open>
  \<open>constexpr auto release() noexcept -> element_type*
   { element_type* p = this->get(); this->reset(); return p; }\<close>
\<close>

definition release :: "'v state \<Rightarrow> nat \<Rightarrow> (pointer \<times> 'v state) outcome" where
  "release s this =
     obind (get (wrappers s this)) (\<lambda>p.
     obind (reset_default s this) (\<lambda>s'.
     Returns (p, s')))"

text \<open>
  \<open>std::swap(a, b)\<close> on two lvalues of type \<open>T*\<close>, each a \<open>ptr\<close> member of a wrapper:
  \<open>T* tmp = a; a = b; b = tmp;\<close>
\<close>

definition swap_ptr :: "'v state \<Rightarrow> nat \<Rightarrow> nat \<Rightarrow> 'v state outcome" where
  "swap_ptr s a b =
     (let tmp = ptr (wrappers s a);
          s1 = s\<lparr>wrappers := (wrappers s)(a := (wrappers s a)\<lparr>ptr := ptr (wrappers s b)\<rparr>)\<rparr>;
          s2 = s1\<lparr>wrappers := (wrappers s1)(b := (wrappers s1 b)\<lparr>ptr := tmp\<rparr>)\<rparr>
      in Returns s2)"

text \<open>
  \<open>constexpr void swap(observer_ptr& other) noexcept
   { using std::swap; swap(this->ptr, other.ptr); }\<close>
\<close>

definition swap :: "'v state \<Rightarrow> nat \<Rightarrow> nat \<Rightarrow> 'v state outcome" where
  "swap s this other = swap_ptr s this other"

section \<open>Free functions\<close>

text \<open>\<open>make_observer(T* p) noexcept { return observer_ptr<T>(p); }\<close>\<close>

definition make_observer :: "pointer \<Rightarrow> observer_ptr outcome" where
  "make_observer p = ctor_ptr p"

text \<open>
  The built-in \<open>==\<close> on a \<open>W1*\<close> and a \<open>W2*\<close>: both operands are converted to their
  composite pointer type (the conversions \<open>c1\<close> and \<open>c2\<close>) and the results compared.
\<close>

definition ptr_eq :: "(pointer \<Rightarrow> pointer) \<Rightarrow> (pointer \<Rightarrow> pointer) \<Rightarrow> pointer \<Rightarrow> pointer \<Rightarrow> bool" where
  "ptr_eq c1 c2 x y = (c1 x = c2 y)"

text \<open>\<open>operator== (p1, p2) { return p1.get() == p2.get(); }\<close>\<close>

definition op_eq ::
  "(pointer \<Rightarrow> pointer) \<Rightarrow> (pointer \<Rightarrow> pointer) \<Rightarrow> observer_ptr \<Rightarrow> observer_ptr \<Rightarrow> bool outcome" where
  "op_eq c1 c2 p1 p2 =
     obind (get p1) (\<lambda>x. obind (get p2) (\<lambda>y. Returns (ptr_eq c1 c2 x y)))"

text \<open>\<open>operator!= (p1, p2) { return !(p1 == p2); }\<close>\<close>

definition op_ne ::
  "(pointer \<Rightarrow> pointer) \<Rightarrow> (pointer \<Rightarrow> pointer) \<Rightarrow> observer_ptr \<Rightarrow> observer_ptr \<Rightarrow> bool outcome" where
  "op_ne c1 c2 p1 p2 = obind (op_eq c1 c2 p1 p2) (\<lambda>e. Returns (\<not> e))"

text \<open>\<open>operator== (p, std::nullptr_t) noexcept { return !p; }\<close>\<close>

definition op_eq_nullptr :: "observer_ptr \<Rightarrow> bool outcome" where
  "op_eq_nullptr p = obind (op_bool p) (\<lambda>b. Returns (\<not> b))"

text \<open>\<open>operator== (std::nullptr_t, p) noexcept { return !p; }\<close>\<close>

definition op_nullptr_eq :: "observer_ptr \<Rightarrow> bool outcome" where
  "op_nullptr_eq p = obind (op_bool p) (\<lambda>b. Returns (\<not> b))"

text \<open>\<open>operator!= (p, std::nullptr_t) noexcept { return static_cast<bool>(p); }\<close>\<close>

definition op_ne_nullptr :: "observer_ptr \<Rightarrow> bool outcome" where
  "op_ne_nullptr p = op_bool p"

text \<open>\<open>operator!= (std::nullptr_t, p) noexcept { return static_cast<bool>(p); }\<close>\<close>

definition op_nullptr_ne :: "observer_ptr \<Rightarrow> bool outcome" where
  "op_nullptr_ne p = op_bool p"

text \<open>
  \<open>operator< (p1, p2)
   { using W3 = std::common_type_t<W1*, W2*>; return std::less<W3>()(p1.get(), p2.get()); }\<close>:
  \<open>c1\<close> and \<open>c2\<close> convert the arguments to \<open>W3\<close>, and \<open>lt\<close> is \<open>std::less<W3>\<close>, the
  ordering of addresses that the implementation provides.
\<close>

definition op_lt ::
  "(pointer \<Rightarrow> pointer \<Rightarrow> bool) \<Rightarrow> (pointer \<Rightarrow> pointer) \<Rightarrow> (pointer \<Rightarrow> pointer)
     \<Rightarrow> observer_ptr \<Rightarrow> observer_ptr \<Rightarrow> bool outcome" where
  "op_lt lt c1 c2 p1 p2 =
     obind (get p1) (\<lambda>x. obind (get p2) (\<lambda>y. Returns (lt (c1 x) (c2 y))))"

text \<open>\<open>operator> (p1, p2) { return p2 < p1; }\<close>\<close>

definition op_gt ::
  "(pointer \<Rightarrow> pointer \<Rightarrow> bool) \<Rightarrow> (pointer \<Rightarrow> pointer) \<Rightarrow> (pointer \<Rightarrow> pointer)
     \<Rightarrow> observer_ptr \<Rightarrow> observer_ptr \<Rightarrow> bool outcome" where
  "op_gt lt c1 c2 p1 p2 = op_lt lt c2 c1 p2 p1"

text \<open>\<open>operator<= (p1, p2) { return !(p2 < p1); }\<close>\<close>

definition op_le ::
  "(pointer \<Rightarrow> pointer \<Rightarrow> bool) \<Rightarrow> (pointer \<Rightarrow> pointer) \<Rightarrow> (pointer \<Rightarrow> pointer)
     \<Rightarrow> observer_ptr \<Rightarrow> observer_ptr \<Rightarrow> bool outcome" where
  "op_le lt c1 c2 p1 p2 = obind (op_lt lt c2 c1 p2 p1) (\<lambda>b. Returns (\<not> b))"

text \<open>\<open>operator>= (p1, p2) { return !(p1 < p2); }\<close>\<close>

definition op_ge ::
  "(pointer \<Rightarrow> pointer \<Rightarrow> bool) \<Rightarrow> (pointer \<Rightarrow> pointer) \<Rightarrow> (pointer \<Rightarrow> pointer)
     \<Rightarrow> observer_ptr \<Rightarrow> observer_ptr \<Rightarrow> bool outcome" where
  "op_ge lt c1 c2 p1 p2 = obind (op_lt lt c1 c2 p1 p2) (\<lambda>b. Returns (\<not> b))"

section \<open>Hooks in namespace \<open>std\<close>\<close>

text \<open>\<open>std::swap(observer_ptr<W>& lhs, observer_ptr<W>& rhs) noexcept { lhs.swap(rhs); }\<close>\<close>

definition std_swap :: "'v state \<Rightarrow> nat \<Rightarrow> nat \<Rightarrow> 'v state outcome" where
  "std_swap s lhs rhs = swap s lhs rhs"

text \<open>
  \<open>hash<observer_ptr<T>>::operator() (observer_ptr<T> p) noexcept
   { return std::hash<T*>()(p.get()); }\<close>: \<open>h\<close> is \<open>std::hash<T*>\<close>.
\<close>

definition std_hash :: "(pointer \<Rightarrow> 'h) \<Rightarrow> observer_ptr \<Rightarrow> 'h outcome" where
  "std_hash h p = obind (get p) (\<lambda>a. Returns (h a))"


text \<open>
  A conversion from a pointer to a derived class to a pointer to one of its bases, the base
  subobject lying \<open>off\<close> locations into the derived object: null stays null.
\<close>

fun upcast :: "nat \<Rightarrow> pointer \<Rightarrow> pointer" where
  "upcast off nullptr = nullptr"
| "upcast off (Addr a) = Addr (a + off)"

text \<open>
  \<open>observer_ptr(const observer_ptr&) = default;\<close> and
  \<open>observer_ptr(observer_ptr&&) = default;\<close>: both copy the one member.
\<close>

definition ctor_copy :: "observer_ptr \<Rightarrow> observer_ptr outcome" where
  "ctor_copy other = Returns \<lparr>ptr = ptr other\<rparr>"

definition ctor_move :: "observer_ptr \<Rightarrow> observer_ptr outcome" where
  "ctor_move other = Returns \<lparr>ptr = ptr other\<rparr>"

text \<open>A call is no-throw when no exception leaves it.\<close>

fun no_throw :: "'a outcome \<Rightarrow> bool" where
  "no_throw (Returns v) = True"
| "no_throw Throws = False"
| "no_throw Undefined = True"

section \<open>Properties\<close>

subsection \<open>What each comparison computes on the held addresses\<close>

lemma op_lt_ptr: "op_lt lt c1 c2 a b = Returns (lt (c1 (ptr a)) (c2 (ptr b)))"
  by (simp add: op_lt_def get_def)

lemma op_gt_ptr: "op_gt lt c1 c2 a b = Returns (lt (c2 (ptr b)) (c1 (ptr a)))"
  by (simp add: op_gt_def op_lt_ptr)

lemma op_le_ptr: "op_le lt c1 c2 a b = Returns (\<not> lt (c2 (ptr b)) (c1 (ptr a)))"
  by (simp add: op_le_def op_lt_ptr)

lemma op_ge_ptr: "op_ge lt c1 c2 a b = Returns (\<not> lt (c1 (ptr a)) (c2 (ptr b)))"
  by (simp add: op_ge_def op_lt_ptr)

lemma op_eq_ptr: "op_eq c1 c2 a b = Returns (c1 (ptr a) = c2 (ptr b))"
  by (simp add: op_eq_def ptr_eq_def get_def)

subsection \<open>The flat ordering is a strict total order\<close>





subsection \<open>The claims\<close>

text \<open>
  C1: for every wrapper \<open>w\<close>, \<open>w.release()\<close> returns the address that \<open>w.get()\<close> held just
  before the call, and afterwards \<open>w\<close> is empty: \<open>w.get()\<close> is the null pointer and
  \<open>bool(w)\<close> is false.
\<close>

theorem release_returns_held_and_empties:
  "\<exists>s'. release s w = Returns (ptr (wrappers s w), s')
       \<and> get (wrappers s w) = Returns (ptr (wrappers s w))
       \<and> get (wrappers s' w) = Returns nullptr
       \<and> op_bool (wrappers s' w) = Returns False"
  by (simp add: release_def reset_default_def reset_def get_def op_bool_def)

text \<open>
  C2: for every wrapper \<open>w\<close> and every address \<open>p\<close>, the null pointer included, after
  \<open>w.reset(p)\<close> the wrapper holds \<open>p\<close>; \<open>reset()\<close> with no argument stores the null
  pointer. Nothing else happens: every other wrapper and the memory of the pointees are as
  they were.
\<close>

theorem reset_stores_address:
  "\<exists>s' s0. reset s w p = Returns s' \<and> get (wrappers s' w) = Returns p
      \<and> (\<forall>r. r \<noteq> w \<longrightarrow> wrappers s' r = wrappers s r) \<and> memory s' = memory s
      \<and> reset_default s w = Returns s0 \<and> get (wrappers s0 w) = Returns nullptr
      \<and> (\<forall>r. r \<noteq> w \<longrightarrow> wrappers s0 r = wrappers s r) \<and> memory s0 = memory s"
  by (simp add: reset_def reset_default_def get_def)

theorem reset_stores_address_witness:
  "\<exists>s' s0. reset \<lparr>wrappers = (\<lambda>r. \<lparr>ptr = Addr r\<rparr>), memory = [7 \<mapsto> (42::int)]\<rparr> 0 (Addr 7) = Returns s'
      \<and> get (wrappers s' 0) = Returns (Addr 7)
      \<and> (1::nat) \<noteq> 0 \<and> wrappers s' 1 = \<lparr>ptr = Addr 1\<rparr> \<and> memory s' 7 = Some 42
      \<and> reset_default \<lparr>wrappers = (\<lambda>r. \<lparr>ptr = Addr r\<rparr>), memory = [7 \<mapsto> (42::int)]\<rparr> 0 = Returns s0
      \<and> get (wrappers s0 0) = Returns nullptr
      \<and> wrappers s0 1 = \<lparr>ptr = Addr 1\<rparr> \<and> memory s0 7 = Some 42"
  using reset_stores_address
    [of "\<lparr>wrappers = (\<lambda>r. \<lparr>ptr = Addr r\<rparr>), memory = [7 \<mapsto> (42::int)]\<rparr>" 0 "Addr 7"]
  by (simp add: reset_def reset_default_def get_def)

text \<open>
  C3: for all wrappers \<open>a\<close> and \<open>b\<close>, possibly over related pointee types (\<open>c1\<close> and \<open>c2\<close>
  take their addresses to the common address type), \<open>a == b\<close> holds iff
  \<open>a.get() == b.get()\<close>, and \<open>a != b\<close> holds iff \<open>a == b\<close> does not. For wrappers of one
  type this is equality of the held addresses. Two empty wrappers compare equal, since a
  pointer conversion takes the null pointer to the null pointer.
\<close>

theorem equality_operators:
  "\<exists>x y e. get a = Returns x \<and> get b = Returns y
      \<and> op_eq c1 c2 a b = Returns e \<and> e = ptr_eq c1 c2 x y \<and> ptr_eq c1 c2 x y = (c1 x = c2 y)
      \<and> op_ne c1 c2 a b = Returns (\<not> e)
      \<and> op_eq id id a b = Returns (x = y)
      \<and> (c1 nullptr = nullptr \<and> c2 nullptr = nullptr \<and> x = nullptr \<and> y = nullptr \<longrightarrow> e)"
  by (simp add: op_eq_def op_ne_def ptr_eq_def get_def)

theorem equality_operators_witness:
  "upcast 8 nullptr = nullptr \<and> id nullptr = nullptr
     \<and> get \<lparr>ptr = nullptr\<rparr> = Returns nullptr
     \<and> op_eq (upcast 8) id \<lparr>ptr = nullptr\<rparr> \<lparr>ptr = nullptr\<rparr> = Returns True
     \<and> op_ne (upcast 8) id \<lparr>ptr = nullptr\<rparr> \<lparr>ptr = nullptr\<rparr> = Returns False"
  using equality_operators [of "\<lparr>ptr = nullptr\<rparr>" "\<lparr>ptr = nullptr\<rparr>" "upcast 8" id]
  by (simp add: get_def)



text \<open>
  C5: for every wrapper \<open>w\<close>, the conversion to \<open>bool\<close> yields true iff the held address is
  not the null pointer: \<open>bool(w) == (w.get() != nullptr)\<close>.
\<close>

theorem bool_conversion:
  "\<exists>p. get w = Returns p \<and> op_bool w = Returns (p \<noteq> nullptr)"
  by (simp add: op_bool_def get_def)

text \<open>
  C6: for every wrapper \<open>w\<close>, in either argument order, \<open>w == nullptr\<close> is true iff \<open>w\<close>
  is empty, that is iff the address it holds in \<open>ptr\<close> is the null pointer, and
  \<open>w != nullptr\<close> is true iff \<open>w\<close> is not empty. So the empty wrapper compares equal to
  \<open>nullptr\<close> and a wrapper that holds the address of an object compares unequal to it.
\<close>

theorem nullptr_comparisons:
  "op_eq_nullptr w = Returns (ptr w = nullptr) \<and> op_nullptr_eq w = Returns (ptr w = nullptr)
     \<and> op_ne_nullptr w = Returns (ptr w \<noteq> nullptr) \<and> op_nullptr_ne w = Returns (ptr w \<noteq> nullptr)
     \<and> get w = Returns (ptr w)
     \<and> op_eq_nullptr \<lparr>ptr = nullptr\<rparr> = Returns True
     \<and> op_nullptr_eq \<lparr>ptr = nullptr\<rparr> = Returns True
     \<and> op_ne_nullptr \<lparr>ptr = nullptr\<rparr> = Returns False
     \<and> op_nullptr_ne \<lparr>ptr = nullptr\<rparr> = Returns False
     \<and> op_eq_nullptr \<lparr>ptr = Addr a\<rparr> = Returns False
     \<and> op_nullptr_eq \<lparr>ptr = Addr a\<rparr> = Returns False
     \<and> op_ne_nullptr \<lparr>ptr = Addr a\<rparr> = Returns True
     \<and> op_nullptr_ne \<lparr>ptr = Addr a\<rparr> = Returns True"
  by (simp add: op_eq_nullptr_def op_nullptr_eq_def op_ne_nullptr_def op_nullptr_ne_def
      op_bool_def get_def)

text \<open>
  C7: for every pair of wrappers \<open>a\<close>, \<open>b\<close> of one type (the same object twice included),
  \<open>swap(a, b)\<close> exchanges their held addresses and changes nothing else: afterwards \<open>a\<close> is
  what \<open>b\<close> was and \<open>b\<close> is what \<open>a\<close> was, every other wrapper and the memory of the
  pointees are as they were; and \<open>std::swap\<close> on two wrappers is the member \<open>swap\<close>.
\<close>

theorem swap_exchanges_addresses:
  "\<exists>s'. swap s a b = Returns s'
      \<and> get (wrappers s' a) = get (wrappers s b) \<and> get (wrappers s' b) = get (wrappers s a)
      \<and> wrappers s' a = wrappers s b \<and> wrappers s' b = wrappers s a
      \<and> (\<forall>r. r \<noteq> a \<and> r \<noteq> b \<longrightarrow> wrappers s' r = wrappers s r)
      \<and> memory s' = memory s
      \<and> std_swap s a b = swap s a b"
  by (simp add: swap_def swap_ptr_def std_swap_def get_def Let_def)

theorem swap_exchanges_addresses_witness:
  "\<exists>s'. swap \<lparr>wrappers = (\<lambda>r. \<lparr>ptr = Addr r\<rparr>), memory = [7 \<mapsto> (42::int)]\<rparr> 0 1 = Returns s'
      \<and> get (wrappers s' 0) = Returns (Addr 1) \<and> get (wrappers s' 1) = Returns (Addr 0)
      \<and> (2::nat) \<noteq> 0 \<and> (2::nat) \<noteq> 1 \<and> wrappers s' 2 = \<lparr>ptr = Addr 2\<rparr>
      \<and> memory s' 7 = Some 42
      \<and> std_swap \<lparr>wrappers = (\<lambda>r. \<lparr>ptr = Addr r\<rparr>), memory = [7 \<mapsto> (42::int)]\<rparr> 0 1 = Returns s'"
  using swap_exchanges_addresses
    [of "\<lparr>wrappers = (\<lambda>r. \<lparr>ptr = Addr r\<rparr>), memory = [7 \<mapsto> (42::int)]\<rparr>" 0 1]
  by (simp add: swap_def swap_ptr_def std_swap_def get_def Let_def)

text \<open>
  C8: every operation of the component is no-throw: the constructors, \<open>get\<close>, the
  conversion to \<open>bool\<close>, dereference, member access, the conversion to the raw address,
  \<open>reset\<close>, \<open>release\<close>, \<open>swap\<close>, \<open>make_observer\<close>, all the comparison operators, and the
  \<open>std::swap\<close> and \<open>std::hash\<close> hooks. No exception leaves any of them, on any input.
\<close>

theorem every_operation_no_throw:
  "no_throw ctor_default \<and> no_throw ctor_nullptr \<and> no_throw (ctor_ptr p)
     \<and> no_throw (ctor_conv conv w) \<and> no_throw (ctor_copy w) \<and> no_throw (ctor_move w)
     \<and> no_throw (get w) \<and> no_throw (op_bool w)
     \<and> no_throw (op_deref m w) \<and> no_throw (op_arrow w) \<and> no_throw (op_element_ptr w)
     \<and> no_throw (reset s r p) \<and> no_throw (reset_default s r) \<and> no_throw (release s r)
     \<and> no_throw (swap s r r') \<and> no_throw (make_observer p)
     \<and> no_throw (op_eq c1 c2 w w') \<and> no_throw (op_ne c1 c2 w w')
     \<and> no_throw (op_eq_nullptr w) \<and> no_throw (op_nullptr_eq w)
     \<and> no_throw (op_ne_nullptr w) \<and> no_throw (op_nullptr_ne w)
     \<and> no_throw (op_lt lt c1 c2 w w') \<and> no_throw (op_gt lt c1 c2 w w')
     \<and> no_throw (op_le lt c1 c2 w w') \<and> no_throw (op_ge lt c1 c2 w w')
     \<and> no_throw (std_swap s r r') \<and> no_throw (std_hash h w)"
proof -
  have "no_throw (indirection m q)" for q
    by (cases q) (simp_all split: option.split)
  then have deref: "no_throw (op_deref m w)"
    by (simp add: op_deref_def get_def)
  have ctors: "no_throw ctor_default" "no_throw ctor_nullptr" "no_throw (ctor_ptr p)"
    "no_throw (ctor_conv conv w)" "no_throw (ctor_copy w)" "no_throw (ctor_move w)"
    "no_throw (make_observer p)"
    by (simp_all add: ctor_default_def ctor_nullptr_def ctor_ptr_def ctor_conv_def ctor_copy_def
        ctor_move_def make_observer_def get_def)
  have observers: "no_throw (get w)" "no_throw (op_bool w)" "no_throw (op_arrow w)"
    "no_throw (op_element_ptr w)" "no_throw (std_hash h w)"
    by (simp_all add: get_def op_bool_def op_arrow_def op_element_ptr_def std_hash_def)
  have modifiers: "no_throw (reset s r p)" "no_throw (reset_default s r)"
    "no_throw (release s r)" "no_throw (swap s r r')" "no_throw (std_swap s r r')"
    by (simp_all add: reset_def reset_default_def release_def swap_def swap_ptr_def
        std_swap_def get_def Let_def)
  have comparisons: "no_throw (op_eq c1 c2 w w')" "no_throw (op_ne c1 c2 w w')"
    "no_throw (op_eq_nullptr w)" "no_throw (op_nullptr_eq w)"
    "no_throw (op_ne_nullptr w)" "no_throw (op_nullptr_ne w)"
    "no_throw (op_lt lt c1 c2 w w')" "no_throw (op_gt lt c1 c2 w w')"
    "no_throw (op_le lt c1 c2 w w')" "no_throw (op_ge lt c1 c2 w w')"
    by (simp_all add: op_eq_ptr op_ne_def op_eq_nullptr_def op_nullptr_eq_def op_ne_nullptr_def
        op_nullptr_ne_def op_bool_def get_def op_lt_ptr op_gt_ptr op_le_ptr op_ge_ptr)
  from deref ctors observers modifiers comparisons show ?thesis
    by (intro conjI)
qed

text \<open>
  C9: for every wrapper \<open>w\<close>, \<open>r = w.release()\<close> followed by \<open>w2.reset(r)\<close> on any wrapper
  \<open>w2\<close> of the same type (\<open>w\<close> itself included) leaves \<open>w2\<close> equal, under \<open>operator==\<close>,
  to \<open>w\<close> as it was before the release.
\<close>

theorem release_reset_round_trip:
  "\<exists>r s1 s2. release s w = Returns (r, s1) \<and> reset s1 w2 r = Returns s2
      \<and> op_eq id id (wrappers s2 w2) (wrappers s w) = Returns True"
  by (simp add: release_def reset_default_def reset_def op_eq_def ptr_eq_def get_def)

text \<open>
  C10: for every wrapper \<open>w\<close>, an empty one included, \<open>operator->\<close> and the explicit
  conversion to the raw address type both return exactly \<open>w.get()\<close>. Neither looks at the
  memory nor tests for null: on an empty wrapper each returns the null pointer, where
  dereference is undefined.
\<close>

theorem arrow_and_conversion_return_get:
  "op_arrow w = get w \<and> op_element_ptr w = get w \<and> get w = Returns (ptr w)
     \<and> op_arrow \<lparr>ptr = nullptr\<rparr> = Returns nullptr
     \<and> op_element_ptr \<lparr>ptr = nullptr\<rparr> = Returns nullptr
     \<and> op_deref m \<lparr>ptr = nullptr\<rparr> = Undefined"
  by (simp add: op_arrow_def op_element_ptr_def get_def op_deref_def)

end
